theory Spec2Isabelle
  imports Complex_Main
begin

section \<open>Numbers and the library functions the generator calls\<close>

text \<open>
  The generator computes on JavaScript numbers. They are modelled as the real numbers:
  every formula below is the source's formula read in exact arithmetic, and the rounding
  that an IEEE double adds to each operation is not part of the model. The not-a-number
  and infinite values do not exist here (a division by zero is \<open>0\<close> in HOL); the registry's
  records and the ranges of the noise keep every divisor of the generator away from zero.
\<close>

text \<open>
  \<open>Number(x.toFixed(d))\<close>. The method takes the sign off, picks the integer \<open>n\<close> with
  \<open>n / 10^d\<close> closest to the magnitude, the larger one on a tie, and prints it; magnitudes
  of \<open>10^21\<close> and more are printed in full, so the number read back is \<open>x\<close> itself.
\<close>

definition toFixed :: "nat \<Rightarrow> real \<Rightarrow> real" where
  "toFixed d x =
     (if 10 ^ 21 \<le> \<bar>x\<bar> then x
      else if x < 0 then - (of_int \<lfloor>(- x) * 10 ^ d + 1 / 2\<rfloor> / 10 ^ d)
      else of_int \<lfloor>x * 10 ^ d + 1 / 2\<rfloor> / 10 ^ d)"

text \<open>\<open>Math.round\<close>: the nearest integer, a tie going up.\<close>

definition Math_round :: "real \<Rightarrow> real" where
  "Math_round x = of_int \<lfloor>x + 1 / 2\<rfloor>"

text \<open>
  \<open>Math.random()\<close> reads a source of randomness shared by the whole process. The source
  is made explicit: it is the sequence of the numbers the next calls are going to return,
  each call takes the head and leaves the tail. A sequence the runtime can produce has
  all its elements in \<open>[0, 1)\<close>.
\<close>

type_synonym rng = "nat \<Rightarrow> real"

definition Math_random :: "rng \<Rightarrow> real \<times> rng" where
  "Math_random g = (g 0, \<lambda>i. g (Suc i))"

definition rng_ok :: "rng \<Rightarrow> bool" where
  "rng_ok g = (\<forall>i. 0 \<le> g i \<and> g i < 1)"

section \<open>Engine registry\<close>

datatype dataset = FD001 | FD002 | FD003 | FD004

datatype engine_status = operational | maintenance_required | degraded

record CMAPSSEngine =
  engineId :: string
  model :: string
  serialNumber :: string
  flightHours :: real
  cycles :: real
  healthScore :: real
  status :: engine_status
  lastMaintenance :: string
  nextMaintenance :: string
  dataset :: dataset
  operationalConditions :: string
  faultModes :: "string list"

definition cmapssEngines :: "CMAPSSEngine list" where
  "cmapssEngines =
   [ \<lparr> engineId = ''CMAPSS-FD001-001'', model = ''CFM56-7B (CMAPSS)'', serialNumber = ''SN001'',
       flightHours = 15420, cycles = 362, healthScore = 92.5, status = operational,
       lastMaintenance = ''2024-01-15'', nextMaintenance = ''2024-07-15'', dataset = FD001,
       operationalConditions = ''Sea Level'', faultModes = [''HPC Degradation''] \<rparr>,
     \<lparr> engineId = ''CMAPSS-FD001-002'', model = ''CFM56-7B (CMAPSS)'', serialNumber = ''SN002'',
       flightHours = 12850, cycles = 334, healthScore = 88.7, status = operational,
       lastMaintenance = ''2024-02-01'', nextMaintenance = ''2024-08-01'', dataset = FD001,
       operationalConditions = ''Sea Level'', faultModes = [''HPC Degradation''] \<rparr>,
     \<lparr> engineId = ''CMAPSS-FD001-003'', model = ''CFM56-7B (CMAPSS)'', serialNumber = ''SN003'',
       flightHours = 8920, cycles = 206, healthScore = 95.2, status = operational,
       lastMaintenance = ''2024-03-10'', nextMaintenance = ''2024-09-10'', dataset = FD001,
       operationalConditions = ''Sea Level'', faultModes = [''HPC Degradation''] \<rparr>,
     \<lparr> engineId = ''CMAPSS-FD002-001'', model = ''CFM56-7B (CMAPSS)'', serialNumber = ''SN101'',
       flightHours = 18650, cycles = 298, healthScore = 85.4, status = operational,
       lastMaintenance = ''2024-01-20'', nextMaintenance = ''2024-07-20'', dataset = FD002,
       operationalConditions = ''6 Operating Conditions'', faultModes = [''HPC Degradation''] \<rparr>,
     \<lparr> engineId = ''CMAPSS-FD002-002'', model = ''CFM56-7B (CMAPSS)'', serialNumber = ''SN102'',
       flightHours = 21340, cycles = 356, healthScore = 78.9, status = maintenance_required,
       lastMaintenance = ''2024-02-15'', nextMaintenance = ''2024-05-15'', dataset = FD002,
       operationalConditions = ''6 Operating Conditions'', faultModes = [''HPC Degradation''] \<rparr>,
     \<lparr> engineId = ''CMAPSS-FD003-001'', model = ''CFM56-7B (CMAPSS)'', serialNumber = ''SN201'',
       flightHours = 16780, cycles = 285, healthScore = 82.1, status = operational,
       lastMaintenance = ''2024-01-25'', nextMaintenance = ''2024-06-25'', dataset = FD003,
       operationalConditions = ''Sea Level'',
       faultModes = [''HPC Degradation'', ''Fan Degradation''] \<rparr>,
     \<lparr> engineId = ''CMAPSS-FD003-002'', model = ''CFM56-7B (CMAPSS)'', serialNumber = ''SN202'',
       flightHours = 19420, cycles = 312, healthScore = 74.6, status = maintenance_required,
       lastMaintenance = ''2024-03-01'', nextMaintenance = ''2024-05-01'', dataset = FD003,
       operationalConditions = ''Sea Level'',
       faultModes = [''HPC Degradation'', ''Fan Degradation''] \<rparr>,
     \<lparr> engineId = ''CMAPSS-FD004-001'', model = ''CFM56-7B (CMAPSS)'', serialNumber = ''SN301'',
       flightHours = 22150, cycles = 341, healthScore = 71.3, status = degraded,
       lastMaintenance = ''2024-02-10'', nextMaintenance = ''2024-04-10'', dataset = FD004,
       operationalConditions = ''6 Operating Conditions'',
       faultModes = [''HPC Degradation'', ''Fan Degradation''] \<rparr>,
     \<lparr> engineId = ''CMAPSS-FD004-002'', model = ''CFM56-7B (CMAPSS)'', serialNumber = ''SN302'',
       flightHours = 24680, cycles = 378, healthScore = 68.9, status = degraded,
       lastMaintenance = ''2024-01-05'', nextMaintenance = ''2024-03-05'', dataset = FD004,
       operationalConditions = ''6 Operating Conditions'',
       faultModes = [''HPC Degradation'', ''Fan Degradation''] \<rparr> ]"

text \<open>\<open>cmapssEngines.find(e => e.engineId === engineId)\<close>: the first record with the id.\<close>

definition findEngine :: "string \<Rightarrow> CMAPSSEngine option" where
  "findEngine eid = find (\<lambda>e. engineId e = eid) cmapssEngines"

section \<open>Health assessment\<close>

record CMAPSSHealthData =
  engineId_h :: string
  currentCycle :: real
  remainingUsefulLife :: real
  healthScore_h :: real
  degradationRate :: real
  faultProbability :: real
  maintenanceRecommendation :: string
  criticalComponents :: "string list"

text \<open>
  The exceptions of the source: \<open>new Error(message)\<close>, thrown by the health assessment,
  and the \<open>RangeError\<close> that \<open>Date.prototype.toISOString\<close> throws for an invalid date.
\<close>

datatype error = Error string | RangeError

text \<open>The body of \<open>generateCMAPSSHealthData\<close> once the record is found.\<close>

definition healthDataOf :: "CMAPSSEngine \<Rightarrow> string \<Rightarrow> CMAPSSHealthData" where
  "healthDataOf engine eid =
     (let estimatedTotalLife = cycles engine * 1.3;
          remainingCycles = max 0 (estimatedTotalLife - cycles engine);
          rate0 = (0.15 :: real);
          rate1 = (if ''Fan Degradation'' \<in> set (faultModes engine) then rate0 + 0.05 else rate0);
          baseDegradationRate =
            (if dataset engine = FD002 \<or> dataset engine = FD004 then rate1 + 0.03 else rate1);
          faultProbability = max 0 ((100 - healthScore engine) / 100 * 0.8);
          crit0 = [];
          crit1 = (if ''HPC Degradation'' \<in> set (faultModes engine)
                   then crit0 @ [''High Pressure Compressor'', ''Compressor Blades''] else crit0);
          crit2 = (if ''Fan Degradation'' \<in> set (faultModes engine)
                   then crit1 @ [''Fan Blades'', ''Fan Disk''] else crit1);
          criticalComponents = (if healthScore engine < 80
                   then crit2 @ [''Combustor'', ''Turbine Blades''] else crit2);
          rec0 = ''Continue normal operations'';
          rec1 = (if healthScore engine < 85
                  then ''Schedule borescope inspection within 50 cycles'' else rec0);
          rec2 = (if healthScore engine < 75
                  then ''Plan maintenance within 25 cycles - component replacement may be required''
                  else rec1);
          recommendation = (if healthScore engine < 70
                  then ''URGENT: Schedule immediate maintenance - engine approaching critical degradation levels''
                  else rec2)
      in \<lparr> engineId_h = eid,
           currentCycle = cycles engine,
           remainingUsefulLife = Math_round remainingCycles,
           healthScore_h = healthScore engine,
           degradationRate = toFixed 3 baseDegradationRate,
           faultProbability = toFixed 3 faultProbability,
           maintenanceRecommendation = recommendation,
           criticalComponents = criticalComponents \<rparr>)"

definition generateCMAPSSHealthData :: "string \<Rightarrow> error + CMAPSSHealthData" where
  "generateCMAPSSHealthData eid =
     (case findEngine eid of
        None \<Rightarrow> Inl (Error (''Engine '' @ eid @ '' not found''))
      | Some engine \<Rightarrow> Inr (healthDataOf engine eid))"

section \<open>Sensor series generator\<close>

text \<open>
  One reading per cycle. \<open>cycle\<close> is the loop counter, an integer. \<open>timestamp\<close> holds the
  instant in milliseconds since the epoch; the source stores its ISO-8601 rendering, of
  which the model keeps the instant it renders and the exception it can throw.
\<close>

record CMAPSSSensorReading =
  timestamp :: int
  engineId_s :: string
  cycle :: int
  EGT :: real
  N1 :: real
  N2 :: real
  fuelFlow :: real
  oilPressure :: real
  oilTemperature :: real
  vibration :: real
  altitude :: real
  machNumber :: real
  ambientTemp :: real
  T2 :: real
  T24 :: real
  T30 :: real
  P2 :: real
  P15 :: real
  P24 :: real
  Ps30 :: real
  Nf :: real
  Nc :: real
  epr :: real
  phi :: real
  NRf :: real
  NRc :: real
  BPR :: real
  farB :: real
  htBleed :: real
  Nf_dmd :: real
  PCNfR_dmd :: real
  W31 :: real

record datasetParam =
  altitudeBase :: real
  machBase :: real
  tempVariation :: real

fun datasetParams :: "dataset \<Rightarrow> datasetParam" where
  "datasetParams FD001 = \<lparr> altitudeBase = 0, machBase = 0.0, tempVariation = 0.5 \<rparr>"
| "datasetParams FD002 = \<lparr> altitudeBase = 25000, machBase = 0.7, tempVariation = 2.0 \<rparr>"
| "datasetParams FD003 = \<lparr> altitudeBase = 0, machBase = 0.0, tempVariation = 0.8 \<rparr>"
| "datasetParams FD004 = \<lparr> altitudeBase = 30000, machBase = 0.75, tempVariation = 2.5 \<rparr>"

text \<open>The two closures of the loop body; each call draws one random number.\<close>

definition noise :: "rng \<Rightarrow> real \<times> rng" where
  "noise g = (let (u, g') = Math_random g in ((u - 0.5) * 0.02, g'))"

definition cycleNoise :: "datasetParam \<Rightarrow> rng \<Rightarrow> real \<times> rng" where
  "cycleNoise params g = (let (u, g') = Math_random g in ((u - 0.5) * tempVariation params, g'))"

text \<open>\<open>new Date('2024-01-01').getTime()\<close>, midnight UTC.\<close>

definition baseDate :: int where
  "baseDate = 1704067200000"

text \<open>
  \<open>new Date(t).toISOString()\<close>. A date holds an instant of at most \<open>8.64 * 10^15\<close>
  milliseconds either side of the epoch; \<open>new Date\<close> of an instant beyond that is an
  invalid date, and \<open>toISOString\<close> of an invalid date throws a \<open>RangeError\<close>.
\<close>

definition toISOString :: "int \<Rightarrow> error + int" where
  "toISOString t = (if \<bar>t\<bar> > 8640000000000000 then Inl RangeError else Inr t)"

text \<open>
  The body of the loop for one cycle. The draws are threaded in the order in which the
  source evaluates them: the ten of the local constants, then the eight inside the object
  literal, field by field. The first field of the literal is the rendering of the
  timestamp; when it throws, the ten draws of the local constants have been made and the
  eight of the literal have not.
\<close>

definition sensorReading ::
  "CMAPSSEngine \<Rightarrow> datasetParam \<Rightarrow> string \<Rightarrow> int \<Rightarrow> rng
     \<Rightarrow> (error + CMAPSSSensorReading) \<times> rng" where
  "sensorReading engine params eid c g0 =
     (let degradationFactor = 1 - (of_int c / (cycles engine * 1.2));
          healthFactor = max 0.6 degradationFactor;
          (n1, g1) = cycleNoise params g0;
          vT2 = 518.67 + n1;
          (n2, g2) = cycleNoise params g1;
          vT24 = 1580 + n2 * 10 + (1 - healthFactor) * 20;
          (n3, g3) = cycleNoise params g2;
          vT30 = 1350 + n3 * 15 + (1 - healthFactor) * 30;
          (n4, g4) = noise g3;
          vP2 = 14.62 + n4;
          (n5, g5) = noise g4;
          vP15 = 8.44 + n5 * 0.5;
          (n6, g6) = cycleNoise params g5;
          vP24 = 593.0 + n6 * 20 + (1 - healthFactor) * 50;
          (n7, g7) = cycleNoise params g6;
          vPs30 = 1400 + n7 * 30 + (1 - healthFactor) * 60;
          (n8, g8) = cycleNoise params g7;
          vNf = 2388.0 * healthFactor + n8 * 10;
          (n9, g9) = cycleNoise params g8;
          vNc = 9046.0 * healthFactor + n9 * 50;
          vepr = vP24 / vP2;
          (n10, g10) = noise g9;
          vphi = 0.03 + n10 * 0.002 + (1 - healthFactor) * 0.005;
          vEGT = (vT30 - 459.67) * 5 / 9;
          vN1 = (vNf / 2400) * 100;
          vN2 = (vNc / 9100) * 100;
          vfuelFlow = vphi * vPs30 * 0.1;
          vtimestamp = baseDate + c * 24 * 60 * 60 * 1000
      in case toISOString vtimestamp of
           Inl err \<Rightarrow> (Inl err, g10)
         | Inr stamp \<Rightarrow>
      (let (n11, g11) = cycleNoise params g10;
           (n12, g12) = noise g11;
           (n13, g13) = noise g12;
           (n14, g14) = noise g13;
           (n15, g15) = noise g14;
           (n16, g16) = cycleNoise params g15;
           (n17, g17) = noise g16;
           (n18, g18) = noise g17
       in (Inr \<lparr> timestamp = stamp,
            engineId_s = eid,
            cycle = c,
            EGT = toFixed 1 vEGT,
            N1 = toFixed 1 vN1,
            N2 = toFixed 1 vN2,
            fuelFlow = toFixed 0 vfuelFlow,
            oilPressure = toFixed 1 (vP24 * 0.025),
            oilTemperature = toFixed 1 (vEGT * 0.6),
            vibration = toFixed 2 (\<bar>vNf - 2388\<bar> * 0.001),
            altitude = altitudeBase params + n11 * 1000,
            machNumber = toFixed 2 (machBase params + n12 * 0.1),
            ambientTemp = toFixed 1 (15 - altitudeBase params * 0.0065),
            T2 = toFixed 2 vT2,
            T24 = toFixed 2 vT24,
            T30 = toFixed 2 vT30,
            P2 = toFixed 2 vP2,
            P15 = toFixed 2 vP15,
            P24 = toFixed 2 vP24,
            Ps30 = toFixed 2 vPs30,
            Nf = toFixed 2 vNf,
            Nc = toFixed 2 vNc,
            epr = toFixed 3 vepr,
            phi = toFixed 4 vphi,
            NRf = toFixed 2 (vNf / sqrt (vT2 / 518.67)),
            NRc = toFixed 2 (vNc / sqrt (vT24 / 518.67)),
            BPR = toFixed 2 (5.1 + n13 * 0.1),
            farB = toFixed 4 (0.024 + n14 * 0.001),
            htBleed = toFixed 2 (394 + n15 * 5),
            Nf_dmd = toFixed 2 (vNf + n16),
            PCNfR_dmd = toFixed 2 (47.47 + n17),
            W31 = toFixed 2 (39.06 + n18 * 2) \<rparr>, g18)))"

text \<open>
  The loop \<open>for (let cycle = 1; cycle <= cycles; cycle++)\<close>, with the array it appends
  to and the random source as accumulators. An exception of the body leaves the loop and
  the function; the readings collected so far are lost.
\<close>

function readings_loop ::
  "CMAPSSEngine \<Rightarrow> datasetParam \<Rightarrow> string \<Rightarrow> real \<Rightarrow> int \<Rightarrow> CMAPSSSensorReading list \<Rightarrow> rng
     \<Rightarrow> (error + CMAPSSSensorReading list) \<times> rng" where
  "readings_loop engine params eid n c readings g =
     (if of_int c \<le> n
      then (case fst (sensorReading engine params eid c g) of
              Inl err \<Rightarrow> (Inl err, snd (sensorReading engine params eid c g))
            | Inr reading \<Rightarrow>
                readings_loop engine params eid n (c + 1) (readings @ [reading])
                  (snd (sensorReading engine params eid c g)))
      else (Inr readings, g))"
  by pat_completeness auto
termination
  by (relation "measure (\<lambda>(engine, params, eid, n, c, readings, g). nat (\<lfloor>n\<rfloor> + 1 - c))")
     (auto simp: le_floor_iff)

text \<open>
  \<open>generateCMAPSSSensorData(engineId, cycles)\<close>; the source's default for an omitted
  \<open>cycles\<close> is 50. The result is the array returned or the exception thrown, together
  with the random source as the call leaves it.
\<close>

definition generateCMAPSSSensorData ::
  "string \<Rightarrow> real \<Rightarrow> rng \<Rightarrow> (error + CMAPSSSensorReading list) \<times> rng" where
  "generateCMAPSSSensorData eid n g =
     (case findEngine eid of
        None \<Rightarrow> (Inr [], g)
      | Some engine \<Rightarrow> readings_loop engine (datasetParams (dataset engine)) eid n 1 [] g)"

section \<open>Performance metrics\<close>

record PerformanceMetrics =
  engineId_p :: string
  fuelEfficiency :: real
  thermalEfficiency :: real
  thrustOutput :: real
  operatingTemperature :: real
  vibrationLevel :: real
  pressureRatio :: real
  fanSpeed :: real
  coreSpeed :: real
  dataset_p :: dataset
  operationalConditions_p :: string
  faultModes_p :: "string list"

text \<open>
  \<open>getCMAPSSPerformanceMetrics\<close>; \<open>None\<close> is the source's \<open>null\<close>. Reading
  \<open>sensorData[sensorData.length - 1]\<close> of an empty array gives \<open>undefined\<close>, which the
  next line of the source turns into \<open>null\<close>. An exception of the generator is not
  caught.
\<close>

definition getCMAPSSPerformanceMetrics ::
  "string \<Rightarrow> rng \<Rightarrow> (error + PerformanceMetrics option) \<times> rng" where
  "getCMAPSSPerformanceMetrics eid g =
     (case findEngine eid of
        None \<Rightarrow> (Inr None, g)
      | Some engine \<Rightarrow>
          (case generateCMAPSSSensorData eid 10 g of
             (Inl err, g') \<Rightarrow> (Inl err, g')
           | (Inr sensorData, g') \<Rightarrow>
              if sensorData = [] then (Inr None, g')
              else
                (let latestReading = last sensorData;
                     baselineEGT = (650 :: real);
                     baselineFuelFlow = (2500 :: real);
                     fuelEff = max 0.7 (1 - (fuelFlow latestReading - baselineFuelFlow) / baselineFuelFlow);
                     thermalEff = max 0.75 (1 - (EGT latestReading - baselineEGT) / baselineEGT)
                 in (Inr (Some \<lparr> engineId_p = eid,
                            fuelEfficiency = toFixed 3 fuelEff,
                            thermalEfficiency = toFixed 3 thermalEff,
                            thrustOutput = Math_round (24000 * (healthScore engine / 100)),
                            operatingTemperature = EGT latestReading,
                            vibrationLevel = vibration latestReading,
                            pressureRatio = epr latestReading,
                            fanSpeed = N1 latestReading,
                            coreSpeed = N2 latestReading,
                            dataset_p = dataset engine,
                            operationalConditions_p = operationalConditions engine,
                            faultModes_p = faultModes engine \<rparr>), g'))))"

section \<open>Component health\<close>

datatype component_status = normal | warning | critical

text \<open>The two inspection dates are kept as the date literals the source parses.\<close>

record ComponentHealth =
  id_c :: string
  name_c :: string
  health :: real
  status_c :: component_status
  lastInspection :: string
  nextInspection :: string

text \<open>
  \<open>getComponentHealthData\<close>. The exception of \<open>generateCMAPSSHealthData\<close> is not caught,
  so it leaves this function too. The fan's entry draws a random number only in the
  second branch of its conditional.
\<close>

definition getComponentHealthData :: "string \<Rightarrow> rng \<Rightarrow> error + (ComponentHealth list \<times> rng)" where
  "getComponentHealthData eid g0 =
     (case generateCMAPSSHealthData eid of
        Inl e \<Rightarrow> Inl e
      | Inr healthData \<Rightarrow>
          (let (fanHealth, g1) =
                 (if faultProbability healthData > 0.3
                  then (Math_round (85 - faultProbability healthData * 20), g0)
                  else (let (u, g') = Math_random g0 in (Math_round (90 + u * 8), g')));
               (u2, g2) = Math_random g1;
               (u3, g3) = Math_random g2;
               (u4, g4) = Math_random g3;
               (u5, g5) = Math_random g4
           in Inr ([ \<lparr> id_c = ''fan'', name_c = ''Fan Assembly'', health = fanHealth,
                        status_c = normal,
                        lastInspection = ''2024-01-15'', nextInspection = ''2024-07-15'' \<rparr>,
                      \<lparr> id_c = ''compressor'', name_c = ''High Pressure Compressor'',
                        health = Math_round (healthScore_h healthData - 5 + u2 * 10),
                        status_c = (if ''High Pressure Compressor'' \<in> set (criticalComponents healthData)
                                    then warning else normal),
                        lastInspection = ''2024-02-01'', nextInspection = ''2024-08-01'' \<rparr>,
                      \<lparr> id_c = ''combustor'', name_c = ''Combustor'',
                        health = Math_round (healthScore_h healthData + u3 * 5),
                        status_c = normal,
                        lastInspection = ''2024-01-20'', nextInspection = ''2024-07-20'' \<rparr>,
                      \<lparr> id_c = ''turbine'', name_c = ''Turbine Assembly'',
                        health = Math_round (healthScore_h healthData - 3 + u4 * 6),
                        status_c = (if healthScore_h healthData < 75 then warning else normal),
                        lastInspection = ''2024-03-01'', nextInspection = ''2024-09-01'' \<rparr>,
                      \<lparr> id_c = ''nozzle'', name_c = ''Exhaust Nozzle'',
                        health = Math_round (92 + u5 * 6),
                        status_c = normal,
                        lastInspection = ''2024-02-15'', nextInspection = ''2024-08-15'' \<rparr> ], g5)))"

section \<open>Inputs of the concrete scenarios\<close>

text \<open>The random source whose every call returns the same number \<open>u\<close>.\<close>

definition const_rng :: "real \<Rightarrow> rng" where
  "const_rng u = (\<lambda>i. u)"

section \<open>Rounding to a fixed number of decimals\<close>

text \<open>
  Rounding never crosses a number that already has \<open>d\<close> decimals, and it moves a number
  by at most half a unit of the last decimal.
\<close>

lemma toFixed_nonneg_eq:
  "\<not> 10 ^ 21 \<le> \<bar>x\<bar> \<Longrightarrow> \<not> x < 0 \<Longrightarrow> toFixed d x = real_of_int \<lfloor>x * 10 ^ d + 1 / 2\<rfloor> / 10 ^ d"
  by (simp add: toFixed_def)

lemma toFixed_neg_eq:
  "\<not> 10 ^ 21 \<le> \<bar>x\<bar> \<Longrightarrow> x < 0 \<Longrightarrow> toFixed d x = - (real_of_int \<lfloor>(- x) * 10 ^ d + 1 / 2\<rfloor> / 10 ^ d)"
  by (simp add: toFixed_def)

lemma toFixed_big_eq: "10 ^ 21 \<le> \<bar>x\<bar> \<Longrightarrow> toFixed d x = x"
  by (simp add: toFixed_def)

lemma toFixed_lower:
  assumes a: "real_of_int k / 10 ^ d \<le> x"
  shows "real_of_int k / 10 ^ d \<le> toFixed d x"
proof -
  have p: "(0::real) < 10 ^ d" by simp
  from a p have kx: "real_of_int k \<le> x * 10 ^ d" by (simp add: pos_divide_le_eq)
  show ?thesis
  proof (cases "10 ^ 21 \<le> \<bar>x\<bar>")
    case True then show ?thesis using a by (simp add: toFixed_big_eq)
  next
    case big: False
    show ?thesis
    proof (cases "x < 0")
      case True
      define n where "n = \<lfloor>(- x) * 10 ^ d + 1 / 2\<rfloor>"
      have tf: "toFixed d x = - (real_of_int n / 10 ^ d)"
        unfolding n_def by (rule toFixed_neg_eq [OF big True])
      have "n \<le> - k" unfolding n_def using kx by linarith
      then have "real_of_int k \<le> real_of_int (- n)" by linarith
      then have "real_of_int k / 10 ^ d \<le> real_of_int (- n) / 10 ^ d"
        by (rule divide_right_mono) simp
      then show ?thesis unfolding tf by simp
    next
      case False
      define n where "n = \<lfloor>x * 10 ^ d + 1 / 2\<rfloor>"
      have tf: "toFixed d x = real_of_int n / 10 ^ d"
        unfolding n_def by (rule toFixed_nonneg_eq [OF big False])
      have "k \<le> n" unfolding n_def using kx by linarith
      then have "real_of_int k \<le> real_of_int n" by linarith
      then have "real_of_int k / 10 ^ d \<le> real_of_int n / 10 ^ d"
        by (rule divide_right_mono) simp
      then show ?thesis unfolding tf .
    qed
  qed
qed

lemma toFixed_upper:
  assumes a: "x \<le> real_of_int k / 10 ^ d"
  shows "toFixed d x \<le> real_of_int k / 10 ^ d"
proof -
  have p: "(0::real) < 10 ^ d" by simp
  from a p have kx: "x * 10 ^ d \<le> real_of_int k" by (simp add: pos_le_divide_eq)
  show ?thesis
  proof (cases "10 ^ 21 \<le> \<bar>x\<bar>")
    case True then show ?thesis using a by (simp add: toFixed_big_eq)
  next
    case big: False
    show ?thesis
    proof (cases "x < 0")
      case True
      define n where "n = \<lfloor>(- x) * 10 ^ d + 1 / 2\<rfloor>"
      have tf: "toFixed d x = - (real_of_int n / 10 ^ d)"
        unfolding n_def by (rule toFixed_neg_eq [OF big True])
      have "- k \<le> n" unfolding n_def using kx by linarith
      then have "real_of_int (- n) \<le> real_of_int k" by linarith
      then have "real_of_int (- n) / 10 ^ d \<le> real_of_int k / 10 ^ d"
        by (rule divide_right_mono) simp
      then show ?thesis unfolding tf by simp
    next
      case False
      define n where "n = \<lfloor>x * 10 ^ d + 1 / 2\<rfloor>"
      have tf: "toFixed d x = real_of_int n / 10 ^ d"
        unfolding n_def by (rule toFixed_nonneg_eq [OF big False])
      have "n \<le> k" unfolding n_def using kx by linarith
      then have "real_of_int n \<le> real_of_int k" by linarith
      then have "real_of_int n / 10 ^ d \<le> real_of_int k / 10 ^ d"
        by (rule divide_right_mono) simp
      then show ?thesis unfolding tf .
    qed
  qed
qed

lemma round_scaled_error:
  fixes y :: real and d :: nat
  defines "n \<equiv> \<lfloor>y * 10 ^ d + 1 / 2\<rfloor>"
  shows "\<bar>real_of_int n / 10 ^ d - y\<bar> \<le> 1 / (2 * 10 ^ d)"
proof -
  have p: "(0::real) < 10 ^ d" by simp
  have e: "\<bar>real_of_int n - y * 10 ^ d\<bar> \<le> 1 / 2" unfolding n_def by linarith
  have "real_of_int n / 10 ^ d - y = (real_of_int n - y * 10 ^ d) / 10 ^ d"
    using p by (simp add: diff_divide_distrib)
  then have "\<bar>real_of_int n / 10 ^ d - y\<bar> = \<bar>real_of_int n - y * 10 ^ d\<bar> / 10 ^ d"
    using p by (simp only: abs_divide)
  also have "\<dots> \<le> (1 / 2) / 10 ^ d"
    using e by (rule divide_right_mono) simp
  finally show ?thesis by simp
qed

lemma toFixed_error: "\<bar>toFixed d x - x\<bar> \<le> 1 / (2 * 10 ^ d)"
proof (cases "10 ^ 21 \<le> \<bar>x\<bar>")
  case True then show ?thesis by (simp add: toFixed_big_eq)
next
  case big: False
  show ?thesis
  proof (cases "x < 0")
    case True
    define n where "n = \<lfloor>(- x) * 10 ^ d + 1 / 2\<rfloor>"
    have tf: "toFixed d x = - (real_of_int n / 10 ^ d)"
      unfolding n_def by (rule toFixed_neg_eq [OF big True])
    have "\<bar>real_of_int n / 10 ^ d - (- x)\<bar> \<le> 1 / (2 * 10 ^ d)"
      unfolding n_def by (rule round_scaled_error)
    moreover have "\<bar>toFixed d x - x\<bar> = \<bar>real_of_int n / 10 ^ d - (- x)\<bar>"
      unfolding tf by linarith
    ultimately show ?thesis by simp
  next
    case False
    show ?thesis
      unfolding toFixed_nonneg_eq [OF big False] by (rule round_scaled_error)
  qed
qed

section \<open>One reading\<close>

lemma sensorReading_returns:
  assumes "1 \<le> c" and "c \<le> 99980277"
  shows "\<exists>r. fst (sensorReading e p eid c g) = Inr r"
  using assms by (simp add: sensorReading_def Let_def split_def toISOString_def baseDate_def)

lemma sensorReading_throws:
  assumes "99980277 < c"
  shows "fst (sensorReading e p eid c g) = Inl RangeError"
  using assms by (simp add: sensorReading_def Let_def split_def toISOString_def baseDate_def)

lemma sensorReading_error: "fst (sensorReading e p eid c g) = Inl err \<Longrightarrow> err = RangeError"
  by (auto simp: sensorReading_def Let_def split_def toISOString_def split: if_splits)

lemma sensorReading_cycle: "fst (sensorReading e p eid c g) = Inr r \<Longrightarrow> cycle r = c"
  by (auto simp: sensorReading_def Let_def split_def toISOString_def split: if_splits)

lemma sensorReading_EGT_T30:
  assumes "fst (sensorReading e p eid c g) = Inr r"
  shows "\<exists>t. T30 r = toFixed 2 t \<and> EGT r = toFixed 1 ((t - 459.67) * 5 / 9)"
proof -
  define t where "t = 1350 + fst (cycleNoise p (snd (cycleNoise p (snd (cycleNoise p g))))) * 15
     + (1 - max 0.6 (1 - real_of_int c / (cycles e * 1.2))) * 30"
  have a: "T30 r = toFixed 2 t"
    using assms
    by (auto simp: sensorReading_def Let_def split_def toISOString_def t_def split: if_splits)
  have b: "EGT r = toFixed 1 ((t - 459.67) * 5 / 9)"
    using assms
    by (auto simp: sensorReading_def Let_def split_def toISOString_def t_def split: if_splits)
  show ?thesis using a b by blast
qed

lemma sensorReading_epr:
  assumes "fst (sensorReading e p eid c g) = Inr r"
  shows "\<exists>p24 p2. P24 r = toFixed 2 p24 \<and> P2 r = toFixed 2 p2 \<and> epr r = toFixed 3 (p24 / p2)"
proof -
  define g3 where "g3 = snd (cycleNoise p (snd (cycleNoise p (snd (cycleNoise p g)))))"
  define g5 where "g5 = snd (noise (snd (noise g3)))"
  define p2 where "p2 = 14.62 + fst (noise g3)"
  define p24 where "p24 = 593.0 + fst (cycleNoise p g5) * 20
     + (1 - max 0.6 (1 - real_of_int c / (cycles e * 1.2))) * 50"
  have a: "P24 r = toFixed 2 p24"
    using assms
    by (auto simp: sensorReading_def Let_def split_def toISOString_def p24_def g5_def g3_def
          split: if_splits)
  have b: "P2 r = toFixed 2 p2"
    using assms
    by (auto simp: sensorReading_def Let_def split_def toISOString_def p2_def g3_def
          split: if_splits)
  have q: "epr r = toFixed 3 (p24 / p2)"
    using assms
    by (auto simp: sensorReading_def Let_def split_def toISOString_def p24_def p2_def g5_def g3_def
          split: if_splits)
  show ?thesis using a b q by blast
qed

section \<open>The loop and the generator\<close>

lemma readings_loop_step:
  "of_int c \<le> n \<Longrightarrow> fst (sensorReading e p eid c g) = Inr r \<Longrightarrow>
     readings_loop e p eid n c rs g =
       readings_loop e p eid n (c + 1) (rs @ [r]) (snd (sensorReading e p eid c g))"
  by (subst readings_loop.simps) simp

lemma readings_loop_throw:
  "of_int c \<le> n \<Longrightarrow> fst (sensorReading e p eid c g) = Inl err \<Longrightarrow>
     readings_loop e p eid n c rs g = (Inl err, snd (sensorReading e p eid c g))"
  by (subst readings_loop.simps) simp

lemma readings_loop_done:
  "\<not> of_int c \<le> n \<Longrightarrow> readings_loop e p eid n c rs g = (Inr rs, g)"
  by (subst readings_loop.simps) simp

lemma readings_loop_all:
  assumes "\<And>e p eid c g r. fst (sensorReading e p eid c g) = Inr r \<Longrightarrow> P r"
    and "\<forall>r\<in>set rs. P r"
    and "fst (readings_loop e p eid n c rs g) = Inr out"
  shows "\<forall>r\<in>set out. P r"
  using assms
proof (induction e p eid n c rs g rule: readings_loop.induct)
  case (1 engine params eid n c readings g)
  show ?case
  proof (cases "of_int c \<le> n")
    case True
    show ?thesis
    proof (cases "fst (sensorReading engine params eid c g)")
      case (Inl err)
      have "fst (readings_loop engine params eid n c readings g) = Inl err"
        unfolding readings_loop_throw [OF True Inl] by simp
      then show ?thesis using "1.prems"(3) by simp
    next
      case (Inr r)
      have here: "P r" using "1.prems"(1) [OF Inr] .
      have ext: "\<forall>x\<in>set (readings @ [r]). P x"
      proof
        fix x assume "x \<in> set (readings @ [r])"
        then have "x \<in> set readings \<or> x = r" by auto
        then show "P x" using "1.prems"(2) here by blast
      qed
      have out: "fst (readings_loop engine params eid n (c + 1) (readings @ [r])
                   (snd (sensorReading engine params eid c g))) = Inr out"
        using "1.prems"(3) unfolding readings_loop_step [OF True Inr] .
      show ?thesis by (rule "1.IH" [OF True Inr "1.prems"(1) ext out])
    qed
  next
    case False
    have "out = readings"
      using "1.prems"(3) unfolding readings_loop_done [OF False] by simp
    then show ?thesis using "1.prems"(2) by simp
  qed
qed

lemma readings_loop_cycles:
  assumes "1 \<le> c" and "k \<le> 99980277"
  shows "\<exists>out. fst (readings_loop e p eid (of_int k) c rs g) = Inr out
           \<and> map cycle out = map cycle rs @ [c..k]"
  using assms
proof (induction e p eid "of_int k :: real" c rs g rule: readings_loop.induct)
  case (1 engine params eid c readings g)
  show ?case
  proof (cases "c \<le> k")
    case True
    then have le: "(of_int c :: real) \<le> of_int k" by simp
    have "c \<le> 99980277" using True "1.prems"(2) by simp
    then obtain r where r: "fst (sensorReading engine params eid c g) = Inr r"
      using sensorReading_returns [OF "1.prems"(1)] by blast
    have cr: "cycle r = c" using r by (rule sensorReading_cycle)
    have c': "1 \<le> c + 1" using "1.prems"(1) by simp
    obtain out where out:
      "fst (readings_loop engine params eid (of_int k) (c + 1) (readings @ [r])
         (snd (sensorReading engine params eid c g))) = Inr out"
      "map cycle out = map cycle (readings @ [r]) @ [c + 1..k]"
      using "1.hyps" [OF le r c' "1.prems"(2)] by blast
    have u: "[c..k] = c # [c + 1..k]" using True by (simp add: upto_rec1)
    have "map cycle out = map cycle readings @ [c..k]" unfolding out(2) u using cr by simp
    then show ?thesis unfolding readings_loop_step [OF le r] using out(1) by blast
  next
    case False
    then have nle: "\<not> (of_int c :: real) \<le> of_int k" by simp
    show ?thesis unfolding readings_loop_done [OF nle] using False by simp
  qed
qed

lemma readings_loop_RangeError:
  assumes "1 \<le> c" and "c \<le> 99980278" and "99980278 \<le> n"
  shows "fst (readings_loop e p eid n c rs g) = Inl RangeError"
  using assms
proof (induction e p eid n c rs g rule: readings_loop.induct)
  case (1 engine params eid n c readings g)
  have le: "of_int c \<le> n" using "1.prems"(2,3) by linarith
  show ?case
  proof (cases "c = 99980278")
    case True
    have t: "fst (sensorReading engine params eid c g) = Inl RangeError"
      by (rule sensorReading_throws) (simp add: True)
    show ?thesis unfolding readings_loop_throw [OF le t] by simp
  next
    case False
    then have c277: "c \<le> 99980277" using "1.prems"(2) by simp
    then obtain r where r: "fst (sensorReading engine params eid c g) = Inr r"
      using sensorReading_returns [OF "1.prems"(1)] by blast
    have c': "1 \<le> c + 1" "c + 1 \<le> 99980278" using "1.prems"(1) c277 by simp_all
    show ?thesis unfolding readings_loop_step [OF le r]
      by (rule "1.IH" [OF le r c' "1.prems"(3)])
  qed
qed

lemma generate_Some:
  "findEngine eid = Some e \<Longrightarrow>
     generateCMAPSSSensorData eid n g = readings_loop e (datasetParams (dataset e)) eid n 1 [] g"
  by (simp add: generateCMAPSSSensorData_def)

lemma generate_None: "findEngine eid = None \<Longrightarrow> generateCMAPSSSensorData eid n g = (Inr [], g)"
  by (simp add: generateCMAPSSSensorData_def)

lemma generate_cycles:
  assumes "findEngine eid = Some e" and "k \<le> 99980277"
  shows "\<exists>out. fst (generateCMAPSSSensorData eid (of_int k) g) = Inr out \<and> map cycle out = [1..k]"
proof -
  have one: "(1::int) \<le> 1" by simp
  show ?thesis unfolding generate_Some [OF assms(1)]
    using readings_loop_cycles [OF one assms(2), of e "datasetParams (dataset e)" eid "[]" g]
    by simp
qed

lemma generate_all:
  assumes step: "\<And>e p eid c g r. fst (sensorReading e p eid c g) = Inr r \<Longrightarrow> P r"
    and out: "fst (generateCMAPSSSensorData eid n g) = Inr out"
  shows "\<forall>r\<in>set out. P r"
proof (cases "findEngine eid")
  case None
  have "out = []" using out unfolding generate_None [OF None] by simp
  then show ?thesis by simp
next
  case (Some e)
  have emp: "\<forall>r\<in>set []. P r" by simp
  have loop: "fst (readings_loop e (datasetParams (dataset e)) eid n 1 [] g) = Inr out"
    using out unfolding generate_Some [OF Some] .
  show ?thesis using step emp loop by (rule readings_loop_all [where P = P])
qed

section \<open>The registry\<close>

lemma findEngine_set: "findEngine eid = Some e \<Longrightarrow> e \<in> set cmapssEngines \<and> engineId e = eid"
  unfolding findEngine_def by (auto simp: find_Some_iff)

lemma registry_healthScore:
  "e \<in> set cmapssEngines \<Longrightarrow> 0 \<le> healthScore e \<and> healthScore e \<le> 100"
  by (auto simp: cmapssEngines_def)

section \<open>Inputs of the scenarios and the first reading they give\<close>

lemma findEngine_unknown: "findEngine ''unknown-id'' = None"
  by (simp add: findEngine_def cmapssEngines_def)

lemma findEngine_FD001_001: "findEngine ''CMAPSS-FD001-001'' = Some (cmapssEngines ! 0)"
  by (simp add: findEngine_def cmapssEngines_def)

lemma findEngine_FD004_002: "findEngine ''CMAPSS-FD004-002'' = Some (cmapssEngines ! 8)"
  by (simp add: findEngine_def cmapssEngines_def)

lemma rng_ok_const: "rng_ok (const_rng (1 / 2))"
  by (simp add: rng_ok_def const_rng_def)

lemma Math_random_const: "Math_random (const_rng u) = (u, const_rng u)"
  by (simp add: Math_random_def const_rng_def)

lemma noise_const_half: "noise (const_rng (1 / 2)) = (0, const_rng (1 / 2))"
  by (simp add: noise_def Math_random_const)

lemma cycleNoise_const_half: "cycleNoise p (const_rng (1 / 2)) = (0, const_rng (1 / 2))"
  by (simp add: cycleNoise_def Math_random_const)

lemma sensorReading_first:
  "fst (sensorReading e p eid 1 g) = Inr (projr (fst (sensorReading e p eid 1 g)))"
proof -
  have "\<exists>r. fst (sensorReading e p eid 1 g) = Inr r"
    by (rule sensorReading_returns) simp_all
  then show ?thesis by auto
qed

lemma generate_one:
  assumes "findEngine eid = Some e"
  shows "fst (generateCMAPSSSensorData eid 1 g)
           = Inr [projr (fst (sensorReading e (datasetParams (dataset e)) eid 1 g))]"
proof -
  have a: "(of_int 1 :: real) \<le> 1" by simp
  have b: "\<not> (of_int (1 + 1) :: real) \<le> 1" by simp
  show ?thesis
    unfolding generate_Some [OF assms] readings_loop_step [OF a sensorReading_first]
      readings_loop_done [OF b]
    by simp
qed

lemma first_reading_T30:
  "T30 (projr (fst (sensorReading (cmapssEngines ! 0) p eid 1 (const_rng (1 / 2))))) = 1350.07"
  by (simp add: sensorReading_def Let_def noise_const_half cycleNoise_const_half
        cmapssEngines_def toFixed_def toISOString_def baseDate_def)

lemma first_reading_EGT:
  "EGT (projr (fst (sensorReading (cmapssEngines ! 0) p eid 1 (const_rng (1 / 2))))) = 494.7"
  by (simp add: sensorReading_def Let_def noise_const_half cycleNoise_const_half
        cmapssEngines_def toFixed_def toISOString_def baseDate_def)

lemma first_reading_P2:
  "P2 (projr (fst (sensorReading (cmapssEngines ! 0) p eid 1 (const_rng (1 / 2))))) = 14.62"
  by (simp add: sensorReading_def Let_def noise_const_half cycleNoise_const_half
        cmapssEngines_def toFixed_def toISOString_def baseDate_def)

lemma first_reading_P24:
  "P24 (projr (fst (sensorReading (cmapssEngines ! 0) p eid 1 (const_rng (1 / 2))))) = 593.12"
  by (simp add: sensorReading_def Let_def noise_const_half cycleNoise_const_half
        cmapssEngines_def toFixed_def toISOString_def baseDate_def)

lemma first_reading_epr:
  "epr (projr (fst (sensorReading (cmapssEngines ! 0) p eid 1 (const_rng (1 / 2))))) = 40.569"
  by (simp add: sensorReading_def Let_def noise_const_half cycleNoise_const_half
        cmapssEngines_def toFixed_def toISOString_def baseDate_def)

section \<open>Health assessment, one field at a time\<close>

lemma healthData_Some:
  "findEngine eid = Some e \<Longrightarrow> generateCMAPSSHealthData eid = Inr (healthDataOf e eid)"
  by (simp add: generateCMAPSSHealthData_def)

lemma healthData_None:
  "findEngine eid = None \<Longrightarrow>
     generateCMAPSSHealthData eid = Inl (Error (''Engine '' @ eid @ '' not found''))"
  by (simp add: generateCMAPSSHealthData_def)

lemma healthDataOf_faultProbability:
  "faultProbability (healthDataOf e eid) = toFixed 3 (max 0 ((100 - healthScore e) / 100 * 0.8))"
  by (simp add: healthDataOf_def Let_def)

lemma healthDataOf_remainingUsefulLife:
  "remainingUsefulLife (healthDataOf e eid) = Math_round (max 0 (cycles e * 1.3 - cycles e))"
  by (simp add: healthDataOf_def Let_def)

lemma Math_round_nonneg: "0 \<le> x \<Longrightarrow> 0 \<le> Math_round x"
  by (simp add: Math_round_def)

lemma faultProbability_range:
  assumes "0 \<le> healthScore e" and "healthScore e \<le> 100"
  shows "0 \<le> faultProbability (healthDataOf e eid) \<and> faultProbability (healthDataOf e eid) \<le> 0.8"
proof -
  let ?x = "max 0 ((100 - healthScore e) / 100 * 0.8)"
  have lo: "real_of_int 0 / 10 ^ 3 \<le> ?x" by simp
  have hi: "?x \<le> real_of_int 800 / 10 ^ 3" using assms by simp
  have "real_of_int 0 / 10 ^ 3 \<le> toFixed 3 ?x" using lo by (rule toFixed_lower)
  moreover have "toFixed 3 ?x \<le> real_of_int 800 / 10 ^ 3" using hi by (rule toFixed_upper)
  ultimately show ?thesis unfolding healthDataOf_faultProbability by simp
qed

section \<open>Exhaust gas temperature against the rounded T30\<close>

lemma egt_bound_arith:
  fixes a b t :: real
  assumes "\<bar>b - t\<bar> \<le> 1 / 200" and "\<bar>a - (t - 459.67) * 5 / 9\<bar> \<le> 1 / 20"
  shows "\<bar>a - (b - 459.67) * 5 / 9\<bar> \<le> 19 / 360"
  using assms unfolding abs_le_iff by (simp_all add: field_simps)

lemma sensorReading_EGT_bound:
  assumes "fst (sensorReading e p eid c g) = Inr r"
  shows "\<bar>EGT r - (T30 r - 459.67) * 5 / 9\<bar> \<le> 19 / 360"
proof -
  obtain t where t: "T30 r = toFixed 2 t" "EGT r = toFixed 1 ((t - 459.67) * 5 / 9)"
    using sensorReading_EGT_T30 [OF assms] by blast
  have e1: "\<bar>toFixed 2 t - t\<bar> \<le> 1 / 200" using toFixed_error [of 2 t] by simp
  have e2: "\<bar>toFixed 1 ((t - 459.67) * 5 / 9) - (t - 459.67) * 5 / 9\<bar> \<le> 1 / 20"
    using toFixed_error [of 1 "(t - 459.67) * 5 / 9"] by simp
  show ?thesis unfolding t using e1 e2 by (rule egt_bound_arith)
qed

section \<open>Random sources with all draws in the unit interval\<close>

lemma Math_random_range: "rng_ok g \<Longrightarrow> 0 \<le> fst (Math_random g) \<and> fst (Math_random g) < 1"
  by (simp add: rng_ok_def Math_random_def)

lemma Math_random_rng_ok: "rng_ok g \<Longrightarrow> rng_ok (snd (Math_random g))"
  by (simp add: rng_ok_def Math_random_def)

lemma noise_eq: "noise g = ((fst (Math_random g) - 0.5) * 0.02, snd (Math_random g))"
  by (simp add: noise_def split_def Let_def)

lemma cycleNoise_eq:
  "cycleNoise p g = ((fst (Math_random g) - 0.5) * tempVariation p, snd (Math_random g))"
  by (simp add: cycleNoise_def split_def Let_def)

lemma noise_rng_ok: "rng_ok g \<Longrightarrow> rng_ok (snd (noise g))"
  by (simp add: noise_eq Math_random_rng_ok)

lemma cycleNoise_rng_ok: "rng_ok g \<Longrightarrow> rng_ok (snd (cycleNoise p g))"
  by (simp add: cycleNoise_eq Math_random_rng_ok)

lemma noise_range:
  assumes "rng_ok g"
  shows "- (1 / 100) \<le> fst (noise g) \<and> fst (noise g) \<le> 1 / 100"
  using Math_random_range [OF assms] by (simp add: noise_eq)

lemma cycleNoise_range:
  assumes "rng_ok g" and "0 \<le> tempVariation p"
  shows "\<bar>fst (cycleNoise p g)\<bar> \<le> tempVariation p / 2"
proof -
  let ?u = "fst (Math_random g)"
  have u: "\<bar>?u - 1 / 2\<bar> \<le> 1 / 2" using Math_random_range [OF assms(1)] by linarith
  have "\<bar>(?u - 1 / 2) * tempVariation p\<bar> = \<bar>?u - 1 / 2\<bar> * tempVariation p"
    using assms(2) by (simp add: abs_mult)
  also have "\<dots> \<le> (1 / 2) * tempVariation p"
    using u assms(2) by (rule mult_right_mono)
  finally show ?thesis by (simp add: cycleNoise_eq)
qed

lemma sensorReading_rng_ok: "rng_ok g \<Longrightarrow> rng_ok (snd (sensorReading e p eid c g))"
  by (simp add: sensorReading_def Let_def split_def noise_rng_ok cycleNoise_rng_ok
        split: sum.split)

section \<open>Pressure ratio against the rounded pressures\<close>

lemma epr_bound_arith:
  fixes A B E p24 p2 :: real
  assumes A: "\<bar>A - p24\<bar> \<le> 1 / 200" and B: "\<bar>B - p2\<bar> \<le> 1 / 200"
    and E: "\<bar>E - p24 / p2\<bar> \<le> 1 / 2000"
    and p2: "1461 / 100 \<le> p2" "p2 \<le> 1463 / 100"
    and p24: "568 \<le> p24" "p24 \<le> 638"
  shows "\<bar>E - A / B\<bar> \<le> 2 / 125"
proof -
  have Bpos: "14605 / 1000 \<le> B" using B p2 by linarith
  have p2pos: "0 < p2" using p2 by linarith
  have Bpos': "0 < B" using Bpos by linarith
  have den: "(1461 / 100) * (14605 / 1000) \<le> p2 * B"
    using p2(1) Bpos by (intro mult_mono) simp_all
  have n1: "\<bar>p24 * (B - p2)\<bar> \<le> 638 * (1 / 200)"
  proof -
    have "\<bar>p24 * (B - p2)\<bar> = \<bar>p24\<bar> * \<bar>B - p2\<bar>" by (rule abs_mult)
    also have "\<dots> \<le> 638 * (1 / 200)"
      using p24 B by (intro mult_mono) simp_all
    finally show ?thesis .
  qed
  have n2: "\<bar>p2 * (p24 - A)\<bar> \<le> (1463 / 100) * (1 / 200)"
  proof -
    have "\<bar>p2 * (p24 - A)\<bar> = \<bar>p2\<bar> * \<bar>p24 - A\<bar>" by (rule abs_mult)
    also have "\<dots> \<le> (1463 / 100) * (1 / 200)"
      using p2 A by (intro mult_mono) (simp_all add: abs_minus_commute)
    finally show ?thesis .
  qed
  have num: "\<bar>p24 * B - A * p2\<bar> \<le> 326315 / 100000"
  proof -
    have "p24 * B - A * p2 = p24 * (B - p2) + p2 * (p24 - A)" by (simp add: algebra_simps)
    then show ?thesis using n1 n2 by linarith
  qed
  have q: "p24 / p2 - A / B = (p24 * B - A * p2) / (p2 * B)"
    using p2pos Bpos' by (simp add: field_simps)
  have "\<bar>p24 / p2 - A / B\<bar> = \<bar>p24 * B - A * p2\<bar> / (p2 * B)"
    unfolding q using p2pos Bpos' by (simp add: abs_divide abs_mult)
  also have "\<dots> \<le> (326315 / 100000) / ((1461 / 100) * (14605 / 1000))"
    using num den by (intro frac_le) simp_all
  also have "\<dots> \<le> 31 / 2000" by simp
  finally have "\<bar>p24 / p2 - A / B\<bar> \<le> 31 / 2000" .
  then show ?thesis using E by linarith
qed

lemma healthFactor_range:
  assumes "0 \<le> c" and "0 < cycles e"
  shows "0 \<le> 1 - max 0.6 (1 - real_of_int c / (cycles e * 1.2))
       \<and> 1 - max 0.6 (1 - real_of_int c / (cycles e * 1.2)) \<le> 2 / 5"
proof -
  have "0 \<le> real_of_int c / (cycles e * 1.2)" using assms by simp
  then show ?thesis by (simp add: max_def)
qed

lemma sensorReading_pressures:
  assumes r: "fst (sensorReading e p eid c g) = Inr r"
    and g: "rng_ok g" and c: "0 \<le> c" and e: "0 < cycles e"
    and tv: "0 \<le> tempVariation p" "tempVariation p \<le> 5 / 2"
  shows "\<exists>p24 p2. P24 r = toFixed 2 p24 \<and> P2 r = toFixed 2 p2 \<and> epr r = toFixed 3 (p24 / p2)
           \<and> 1461 / 100 \<le> p2 \<and> p2 \<le> 1463 / 100 \<and> 568 \<le> p24 \<and> p24 \<le> 638"
proof -
  define g3 where "g3 = snd (cycleNoise p (snd (cycleNoise p (snd (cycleNoise p g)))))"
  define g5 where "g5 = snd (noise (snd (noise g3)))"
  define d where "d = 1 - max 0.6 (1 - real_of_int c / (cycles e * 1.2))"
  define p2 where "p2 = 14.62 + fst (noise g3)"
  define p24 where "p24 = 593.0 + fst (cycleNoise p g5) * 20 + d * 50"
  have g3: "rng_ok g3" unfolding g3_def by (intro cycleNoise_rng_ok g)
  have g5: "rng_ok g5" unfolding g5_def by (intro noise_rng_ok g3)
  have d: "0 \<le> d \<and> d \<le> 2 / 5" unfolding d_def by (rule healthFactor_range [OF c e])
  have n: "\<bar>fst (cycleNoise p g5)\<bar> \<le> 5 / 4"
    using cycleNoise_range [OF g5 tv(1)] tv(2) by linarith
  have r2: "1461 / 100 \<le> p2 \<and> p2 \<le> 1463 / 100"
    unfolding p2_def using noise_range [OF g3] by simp
  have r24: "568 \<le> p24 \<and> p24 \<le> 638"
    unfolding p24_def using n d by linarith
  have a: "P24 r = toFixed 2 p24"
    using r
    by (auto simp: sensorReading_def Let_def split_def toISOString_def p24_def d_def g5_def g3_def
          split: if_splits)
  have b: "P2 r = toFixed 2 p2"
    using r
    by (auto simp: sensorReading_def Let_def split_def toISOString_def p2_def g3_def
          split: if_splits)
  have q: "epr r = toFixed 3 (p24 / p2)"
    using r
    by (auto simp: sensorReading_def Let_def split_def toISOString_def p24_def p2_def d_def
          g5_def g3_def split: if_splits)
  show ?thesis using a b q r2 r24 by blast
qed

lemma sensorReading_epr_bound:
  assumes r: "fst (sensorReading e p eid c g) = Inr r"
    and g: "rng_ok g" and c: "0 \<le> c" and e: "0 < cycles e"
    and tv: "0 \<le> tempVariation p" "tempVariation p \<le> 5 / 2"
  shows "\<bar>epr r - P24 r / P2 r\<bar> \<le> 2 / 125"
proof -
  obtain p24 p2 where h:
    "P24 r = toFixed 2 p24" "P2 r = toFixed 2 p2" "epr r = toFixed 3 (p24 / p2)"
    "1461 / 100 \<le> p2" "p2 \<le> 1463 / 100" "568 \<le> p24" "p24 \<le> 638"
    using sensorReading_pressures [OF r g c e tv] by blast
  have A: "\<bar>toFixed 2 p24 - p24\<bar> \<le> 1 / 200" using toFixed_error [of 2 p24] by simp
  have B: "\<bar>toFixed 2 p2 - p2\<bar> \<le> 1 / 200" using toFixed_error [of 2 p2] by simp
  have E: "\<bar>toFixed 3 (p24 / p2) - p24 / p2\<bar> \<le> 1 / 2000"
    using toFixed_error [of 3 "p24 / p2"] by simp
  show ?thesis unfolding h(1-3) using A B E h(4-7) by (rule epr_bound_arith)
qed

lemma readings_loop_all_ok:
  assumes "\<And>c g r. 1 \<le> c \<Longrightarrow> rng_ok g \<Longrightarrow> fst (sensorReading e p eid c g) = Inr r \<Longrightarrow> P r"
    and "1 \<le> c" and "rng_ok g" and "\<forall>r\<in>set rs. P r"
    and "fst (readings_loop e p eid n c rs g) = Inr out"
  shows "\<forall>r\<in>set out. P r"
  using assms
proof (induction e p eid n c rs g rule: readings_loop.induct)
  case (1 engine params eid n c readings g)
  show ?case
  proof (cases "of_int c \<le> n")
    case True
    show ?thesis
    proof (cases "fst (sensorReading engine params eid c g)")
      case (Inl err)
      have "fst (readings_loop engine params eid n c readings g) = Inl err"
        unfolding readings_loop_throw [OF True Inl] by simp
      then show ?thesis using "1.prems"(5) by simp
    next
      case (Inr r)
      have here: "P r" using "1.prems"(1) [OF "1.prems"(2) "1.prems"(3) Inr] .
      have ext: "\<forall>x\<in>set (readings @ [r]). P x"
      proof
        fix x assume "x \<in> set (readings @ [r])"
        then have "x \<in> set readings \<or> x = r" by auto
        then show "P x" using "1.prems"(4) here by blast
      qed
      have c': "1 \<le> c + 1" using "1.prems"(2) by simp
      have g': "rng_ok (snd (sensorReading engine params eid c g))"
        using "1.prems"(3) by (rule sensorReading_rng_ok)
      have out: "fst (readings_loop engine params eid n (c + 1) (readings @ [r])
                   (snd (sensorReading engine params eid c g))) = Inr out"
        using "1.prems"(5) unfolding readings_loop_step [OF True Inr] .
      show ?thesis by (rule "1.IH" [OF True Inr "1.prems"(1) c' g' ext out])
    qed
  next
    case False
    have "out = readings"
      using "1.prems"(5) unfolding readings_loop_done [OF False] by simp
    then show ?thesis using "1.prems"(4) by simp
  qed
qed

lemma registry_cycles: "e \<in> set cmapssEngines \<Longrightarrow> 0 < cycles e"
  by (auto simp: cmapssEngines_def)

lemma datasetParams_tempVariation:
  "0 \<le> tempVariation (datasetParams d) \<and> tempVariation (datasetParams d) \<le> 5 / 2"
  by (cases d) simp_all

lemma generate_RangeError:
  assumes "findEngine eid = Some e" and "99980278 \<le> n"
  shows "fst (generateCMAPSSSensorData eid n g) = Inl RangeError"
proof -
  have a: "(1::int) \<le> 1" and b: "(1::int) \<le> 99980278" by simp_all
  show ?thesis unfolding generate_Some [OF assms(1)]
    by (rule readings_loop_RangeError [OF a b assms(2)])
qed

section \<open>Claims about the sensor series generator\<close>

text \<open>
  C1, as amended. For an engine id of the registry and a cycle count \<open>n\<close> with
  \<open>0 \<le> n \<le> 99,980,277\<close>, the generator returns exactly \<open>n\<close> readings, and their \<open>cycle\<close>
  fields are \<open>1, 2, ..., n\<close> in this order, which is strictly ascending. This holds for
  every random source. The bound is the last cycle whose timestamp, \<open>2024-01-01\<close> plus
  that many days, is an instant a date can hold.
\<close>

theorem generate_cycles_ascending:
  assumes "findEngine eid = Some e" and "n \<le> 99980277"
  shows "\<exists>rs g'. generateCMAPSSSensorData eid (real n) g = (Inr rs, g')
           \<and> length rs = n \<and> map cycle rs = [1..int n] \<and> sorted_wrt (<) (map cycle rs)"
proof -
  have k: "int n \<le> 99980277" using assms(2) by simp
  obtain rs where rs: "fst (generateCMAPSSSensorData eid (real n) g) = Inr rs"
    and m: "map cycle rs = [1..int n]"
    using generate_cycles [OF assms(1) k, of g] by auto
  have "length (map cycle rs) = n" unfolding m by simp
  then have l: "length rs = n" by simp
  have s: "sorted_wrt (<) (map cycle rs)" unfolding m by simp
  obtain g' where "generateCMAPSSSensorData eid (real n) g = (Inr rs, g')"
    using rs by (cases "generateCMAPSSSensorData eid (real n) g") auto
  then show ?thesis using l m s by blast
qed

text \<open>Three cycles of engine \<open>CMAPSS-FD001-001\<close>.\<close>

theorem generate_cycles_ascending_witness:
  "findEngine ''CMAPSS-FD001-001'' = Some (cmapssEngines ! 0) \<and> (3::nat) \<le> 99980277
   \<and> (\<exists>rs g'. generateCMAPSSSensorData ''CMAPSS-FD001-001'' (real 3) (const_rng (1 / 2))
                 = (Inr rs, g')
          \<and> length rs = 3 \<and> map cycle rs = [1, 2, 3])"
proof -
  have u: "[1..int 3] = [1, 2, 3]" by (simp add: upto_rec1)
  have b: "(3::nat) \<le> 99980277" by simp
  show ?thesis
    using generate_cycles_ascending [OF findEngine_FD001_001 b, of "const_rng (1 / 2)"]
      findEngine_FD001_001 unfolding u by auto
qed

text \<open>
  C1 as the specification states it, for every cycle count, fails. The timestamp of cycle
  \<open>99,980,278\<close> is \<open>8640000086400000\<close> milliseconds, beyond the \<open>8.64 * 10^15\<close> a date can
  hold; rendering it throws a \<open>RangeError\<close>, which leaves the generator, and no reading is
  returned.
\<close>

theorem generate_cycles_ascending_counterexample:
  "findEngine ''CMAPSS-FD001-001'' = Some (cmapssEngines ! 0)
   \<and> fst (generateCMAPSSSensorData ''CMAPSS-FD001-001'' 99980278 (const_rng (1 / 2)))
       = Inl RangeError"
proof -
  have n: "(99980278::real) \<le> 99980278" by simp
  show ?thesis
    using findEngine_FD001_001 generate_RangeError [OF findEngine_FD001_001 n] by simp
qed

text \<open>
  C2, as amended. The generator computes \<open>(T30 - 459.67) * 5 / 9\<close> from the T30 it has not
  rounded yet, and rounds the result to one decimal; the T30 channel of the reading is the
  same unrounded number rounded to two decimals. So each reading has a number \<open>t\<close> with
  \<open>T30 = toFixed 2 t\<close> and \<open>EGT = toFixed 1 ((t - 459.67) * 5 / 9)\<close>, and the EGT channel
  is within \<open>19/360\<close> (half a unit of its decimal, plus \<open>5/9\<close> of half a unit of T30's
  second decimal) of \<open>(T30 - 459.67) * 5 / 9\<close> read off the T30 channel. No noise draw
  changes this.
\<close>

theorem EGT_rounded_from_unrounded_T30:
  assumes "fst (generateCMAPSSSensorData eid n g) = Inr rs"
  shows "\<forall>r\<in>set rs.
     (\<exists>t. T30 r = toFixed 2 t \<and> EGT r = toFixed 1 ((t - 459.67) * 5 / 9))
     \<and> \<bar>EGT r - (T30 r - 459.67) * 5 / 9\<bar> \<le> 19 / 360"
proof (rule generate_all [OF _ assms])
  fix e p eid c g r
  assume r: "fst (sensorReading e p eid c g) = Inr r"
  show "(\<exists>t. T30 r = toFixed 2 t \<and> EGT r = toFixed 1 ((t - 459.67) * 5 / 9))
        \<and> \<bar>EGT r - (T30 r - 459.67) * 5 / 9\<bar> \<le> 19 / 360"
    using sensorReading_EGT_T30 [OF r] sensorReading_EGT_bound [OF r] by (rule conjI)
qed

text \<open>The only reading of a one-cycle series of engine \<open>CMAPSS-FD001-001\<close>.\<close>

theorem EGT_rounded_from_unrounded_T30_witness:
  "fst (generateCMAPSSSensorData ''CMAPSS-FD001-001'' 1 (const_rng (1 / 2)))
     = Inr (projr (fst (generateCMAPSSSensorData ''CMAPSS-FD001-001'' 1 (const_rng (1 / 2)))))
   \<and> hd (projr (fst (generateCMAPSSSensorData ''CMAPSS-FD001-001'' 1 (const_rng (1 / 2)))))
     \<in> set (projr (fst (generateCMAPSSSensorData ''CMAPSS-FD001-001'' 1 (const_rng (1 / 2)))))
   \<and> (\<exists>t. T30 (hd (projr (fst (generateCMAPSSSensorData ''CMAPSS-FD001-001'' 1 (const_rng (1 / 2))))))
             = toFixed 2 t
          \<and> EGT (hd (projr (fst (generateCMAPSSSensorData ''CMAPSS-FD001-001'' 1 (const_rng (1 / 2))))))
             = toFixed 1 ((t - 459.67) * 5 / 9))
   \<and> \<bar>EGT (hd (projr (fst (generateCMAPSSSensorData ''CMAPSS-FD001-001'' 1 (const_rng (1 / 2))))))
        - (T30 (hd (projr (fst (generateCMAPSSSensorData ''CMAPSS-FD001-001'' 1 (const_rng (1 / 2))))))
           - 459.67) * 5 / 9\<bar> \<le> 19 / 360"
proof -
  let ?G = "fst (generateCMAPSSSensorData ''CMAPSS-FD001-001'' 1 (const_rng (1 / 2)))"
  have eq: "?G = Inr (projr ?G)"
    unfolding generate_one [OF findEngine_FD001_001] by simp
  have m: "hd (projr ?G) \<in> set (projr ?G)"
    unfolding generate_one [OF findEngine_FD001_001] by simp
  show ?thesis
    using eq m EGT_rounded_from_unrounded_T30 [OF eq] by blast
qed

text \<open>
  C2 as the specification states it, that the EGT channel equals \<open>(T30 - 459.67) * 5 / 9\<close>
  of the T30 channel exactly, fails. With every random draw equal to \<open>0.5\<close> all the noise
  terms vanish; the first reading of engine \<open>CMAPSS-FD001-001\<close> (362 cycles) then has
  the unrounded T30 \<open>1350 + 30 / 434.4 = 1350.069...\<close>, so T30 is \<open>1350.07\<close>, and EGT is
  \<open>494.666...\<close> rounded to \<open>494.7\<close>, whereas \<open>(1350.07 - 459.67) * 5 / 9 = 494.666...\<close>.
\<close>

theorem EGT_not_exact_counterexample:
  "\<not> isl (fst (generateCMAPSSSensorData ''CMAPSS-FD001-001'' 1 (const_rng (1 / 2))))
   \<and> length (projr (fst (generateCMAPSSSensorData ''CMAPSS-FD001-001'' 1 (const_rng (1 / 2))))) = 1
   \<and> T30 (hd (projr (fst (generateCMAPSSSensorData ''CMAPSS-FD001-001'' 1 (const_rng (1 / 2))))))
       = 1350.07
   \<and> EGT (hd (projr (fst (generateCMAPSSSensorData ''CMAPSS-FD001-001'' 1 (const_rng (1 / 2))))))
       = 494.7
   \<and> EGT (hd (projr (fst (generateCMAPSSSensorData ''CMAPSS-FD001-001'' 1 (const_rng (1 / 2))))))
       \<noteq> (T30 (hd (projr (fst (generateCMAPSSSensorData ''CMAPSS-FD001-001'' 1 (const_rng (1 / 2))))))
            - 459.67) * 5 / 9"
  unfolding generate_one [OF findEngine_FD001_001]
  by (simp add: first_reading_T30 first_reading_EGT)

text \<open>
  C3, as amended. The generator divides the unrounded P24 by the unrounded P2 and rounds
  the quotient to three decimals; the P24 and P2 channels of the reading are the same two
  numbers rounded to two decimals each. So each reading has numbers \<open>p24\<close> and \<open>p2\<close> with
  \<open>P24 = toFixed 2 p24\<close>, \<open>P2 = toFixed 2 p2\<close> and \<open>epr = toFixed 3 (p24 / p2)\<close>. With
  random draws in \<open>[0, 1)\<close> the unrounded P2 stays in \<open>[14.61, 14.63]\<close> and the unrounded
  P24 in \<open>[568, 638]\<close>, and the epr channel is within \<open>0.016\<close> of the quotient of the P24
  and P2 channels.
\<close>

theorem epr_rounded_from_unrounded:
  assumes "rng_ok g" and "fst (generateCMAPSSSensorData eid n g) = Inr rs"
  shows "\<forall>r\<in>set rs.
     (\<exists>p24 p2. P24 r = toFixed 2 p24 \<and> P2 r = toFixed 2 p2 \<and> epr r = toFixed 3 (p24 / p2))
     \<and> \<bar>epr r - P24 r / P2 r\<bar> \<le> 2 / 125"
proof (cases "findEngine eid")
  case None
  have "rs = []" using assms(2) unfolding generate_None [OF None] by simp
  then show ?thesis by simp
next
  case (Some e)
  let ?p = "datasetParams (dataset e)"
  let ?P = "\<lambda>r. (\<exists>p24 p2. P24 r = toFixed 2 p24 \<and> P2 r = toFixed 2 p2 \<and> epr r = toFixed 3 (p24 / p2))
     \<and> \<bar>epr r - P24 r / P2 r\<bar> \<le> 2 / 125"
  have cy: "0 < cycles e" using findEngine_set [OF Some] registry_cycles by blast
  have tv: "0 \<le> tempVariation ?p" "tempVariation ?p \<le> 5 / 2"
    using datasetParams_tempVariation [of "dataset e"] by simp_all
  have step: "?P r"
    if "1 \<le> c" "rng_ok g" "fst (sensorReading e ?p eid c g) = Inr r" for c g r
  proof -
    have c0: "0 \<le> c" using that(1) by simp
    show ?thesis
      using sensorReading_epr [OF that(3)] sensorReading_epr_bound [OF that(3) that(2) c0 cy tv]
      by (rule conjI)
  qed
  have one: "(1::int) \<le> 1" by simp
  have emp: "\<forall>r\<in>set []. ?P r" by simp
  have loop: "fst (readings_loop e ?p eid n 1 [] g) = Inr rs"
    using assms(2) unfolding generate_Some [OF Some] .
  show ?thesis using step one assms(1) emp loop
    by (rule readings_loop_all_ok [where P = ?P])
qed

text \<open>The only reading of a one-cycle series of engine \<open>CMAPSS-FD001-001\<close>.\<close>

theorem epr_rounded_from_unrounded_witness:
  "rng_ok (const_rng (1 / 2))
   \<and> fst (generateCMAPSSSensorData ''CMAPSS-FD001-001'' 1 (const_rng (1 / 2)))
     = Inr (projr (fst (generateCMAPSSSensorData ''CMAPSS-FD001-001'' 1 (const_rng (1 / 2)))))
   \<and> hd (projr (fst (generateCMAPSSSensorData ''CMAPSS-FD001-001'' 1 (const_rng (1 / 2)))))
     \<in> set (projr (fst (generateCMAPSSSensorData ''CMAPSS-FD001-001'' 1 (const_rng (1 / 2)))))
   \<and> (\<exists>p24 p2.
         P24 (hd (projr (fst (generateCMAPSSSensorData ''CMAPSS-FD001-001'' 1 (const_rng (1 / 2))))))
           = toFixed 2 p24
       \<and> P2 (hd (projr (fst (generateCMAPSSSensorData ''CMAPSS-FD001-001'' 1 (const_rng (1 / 2))))))
           = toFixed 2 p2
       \<and> epr (hd (projr (fst (generateCMAPSSSensorData ''CMAPSS-FD001-001'' 1 (const_rng (1 / 2))))))
           = toFixed 3 (p24 / p2))
   \<and> \<bar>epr (hd (projr (fst (generateCMAPSSSensorData ''CMAPSS-FD001-001'' 1 (const_rng (1 / 2))))))
        - P24 (hd (projr (fst (generateCMAPSSSensorData ''CMAPSS-FD001-001'' 1 (const_rng (1 / 2))))))
          / P2 (hd (projr (fst (generateCMAPSSSensorData ''CMAPSS-FD001-001'' 1 (const_rng (1 / 2))))))\<bar>
       \<le> 2 / 125"
proof -
  let ?G = "fst (generateCMAPSSSensorData ''CMAPSS-FD001-001'' 1 (const_rng (1 / 2)))"
  have eq: "?G = Inr (projr ?G)"
    unfolding generate_one [OF findEngine_FD001_001] by simp
  have m: "hd (projr ?G) \<in> set (projr ?G)"
    unfolding generate_one [OF findEngine_FD001_001] by simp
  show ?thesis
    using eq m rng_ok_const epr_rounded_from_unrounded [OF rng_ok_const eq] by blast
qed

text \<open>
  C3 as the specification states it, that the epr channel equals the quotient of the P24
  and P2 channels exactly, fails on the same reading: the unrounded P24 is
  \<open>593 + 50 / 434.4 = 593.115...\<close> and P2 is \<open>14.62\<close>, so epr is \<open>40.5687...\<close> rounded to
  \<open>40.569\<close>, whereas the channels give \<open>593.12 / 14.62 = 40.56908...\<close>.
\<close>

theorem epr_not_exact_counterexample:
  "\<not> isl (fst (generateCMAPSSSensorData ''CMAPSS-FD001-001'' 1 (const_rng (1 / 2))))
   \<and> length (projr (fst (generateCMAPSSSensorData ''CMAPSS-FD001-001'' 1 (const_rng (1 / 2))))) = 1
   \<and> P24 (hd (projr (fst (generateCMAPSSSensorData ''CMAPSS-FD001-001'' 1 (const_rng (1 / 2))))))
       = 593.12
   \<and> P2 (hd (projr (fst (generateCMAPSSSensorData ''CMAPSS-FD001-001'' 1 (const_rng (1 / 2))))))
       = 14.62
   \<and> epr (hd (projr (fst (generateCMAPSSSensorData ''CMAPSS-FD001-001'' 1 (const_rng (1 / 2))))))
       = 40.569
   \<and> epr (hd (projr (fst (generateCMAPSSSensorData ''CMAPSS-FD001-001'' 1 (const_rng (1 / 2))))))
       \<noteq> P24 (hd (projr (fst (generateCMAPSSSensorData ''CMAPSS-FD001-001'' 1 (const_rng (1 / 2))))))
         / P2 (hd (projr (fst (generateCMAPSSSensorData ''CMAPSS-FD001-001'' 1 (const_rng (1 / 2))))))"
  unfolding generate_one [OF findEngine_FD001_001]
  by (simp add: first_reading_P24 first_reading_P2 first_reading_epr)

section \<open>Claims about unknown engine ids\<close>

text \<open>
  C4. For an engine id with no record in the registry the health assessment throws; the
  message of the error, \<open>Engine <id> not found\<close>, names the id. Nothing is returned.
\<close>

theorem assess_unknown_NotFound:
  "findEngine eid = None \<Longrightarrow>
     generateCMAPSSHealthData eid = Inl (Error (''Engine '' @ eid @ '' not found''))"
  by (rule healthData_None)

theorem assess_unknown_NotFound_witness:
  "findEngine ''unknown-id'' = None
   \<and> generateCMAPSSHealthData ''unknown-id'' = Inl (Error ''Engine unknown-id not found'')"
  using assess_unknown_NotFound [OF findEngine_unknown] findEngine_unknown by simp

text \<open>
  C5. For an engine id with no record in the registry the sensor series generator returns
  the empty array and the performance metrics are \<open>null\<close>. Neither function throws, and
  neither draws a random number on this path.
\<close>

theorem silent_empty_unknown:
  "findEngine eid = None \<Longrightarrow>
     generateCMAPSSSensorData eid n g = (Inr [], g)
     \<and> getCMAPSSPerformanceMetrics eid g = (Inr None, g)"
  by (simp add: generateCMAPSSSensorData_def getCMAPSSPerformanceMetrics_def)

theorem silent_empty_unknown_witness:
  "findEngine ''unknown-id'' = None
   \<and> generateCMAPSSSensorData ''unknown-id'' 10 (const_rng (1 / 2)) = (Inr [], const_rng (1 / 2))
   \<and> getCMAPSSPerformanceMetrics ''unknown-id'' (const_rng (1 / 2))
       = (Inr None, const_rng (1 / 2))"
  using silent_empty_unknown [OF findEngine_unknown, of 10 "const_rng (1 / 2)"] findEngine_unknown
  by simp

text \<open>
  C10. The component health breakdown calls the health assessment first and does not catch
  its exception: for an engine id with no record in the registry it throws the same
  error, and returns neither its five component records nor an empty array.
\<close>

theorem componentHealth_unknown_NotFound:
  "findEngine eid = None \<Longrightarrow>
     getComponentHealthData eid g = Inl (Error (''Engine '' @ eid @ '' not found''))"
  by (simp add: getComponentHealthData_def healthData_None)

theorem componentHealth_unknown_NotFound_witness:
  "findEngine ''unknown-id'' = None
   \<and> getComponentHealthData ''unknown-id'' (const_rng (1 / 2))
       = Inl (Error ''Engine unknown-id not found'')"
  using componentHealth_unknown_NotFound [OF findEngine_unknown, of "const_rng (1 / 2)"]
    findEngine_unknown by simp

text \<open>For an id of the registry the breakdown does return its five records.\<close>

lemma componentHealth_known_length:
  assumes "findEngine eid = Some e"
  shows "\<exists>cs g'. getComponentHealthData eid g = Inr (cs, g') \<and> length cs = 5"
  by (simp add: getComponentHealthData_def healthData_Some [OF assms] split_def Let_def)

section \<open>Claims about the health assessment of a registered engine\<close>

text \<open>
  C6. Every record of the registry has its health score in \<open>[0, 100]\<close>, and the assessment
  of a registered engine returns a fault probability in \<open>[0, 0.8]\<close> and a remaining useful
  life that is not negative.
\<close>

theorem assess_ranges:
  assumes "findEngine eid = Some e"
  shows "0 \<le> healthScore e \<and> healthScore e \<le> 100
       \<and> (\<exists>h. generateCMAPSSHealthData eid = Inr h
              \<and> 0 \<le> faultProbability h \<and> faultProbability h \<le> 0.8
              \<and> 0 \<le> remainingUsefulLife h)"
proof -
  have hs: "0 \<le> healthScore e \<and> healthScore e \<le> 100"
    using findEngine_set [OF assms] registry_healthScore by blast
  have fp: "0 \<le> faultProbability (healthDataOf e eid) \<and> faultProbability (healthDataOf e eid) \<le> 0.8"
    using faultProbability_range [of e eid] hs by blast
  have rul: "0 \<le> remainingUsefulLife (healthDataOf e eid)"
    unfolding healthDataOf_remainingUsefulLife by (rule Math_round_nonneg) simp
  show ?thesis using hs fp rul healthData_Some [OF assms] by blast
qed

theorem assess_ranges_witness:
  "findEngine ''CMAPSS-FD004-002'' = Some (cmapssEngines ! 8)
   \<and> (\<exists>h. generateCMAPSSHealthData ''CMAPSS-FD004-002'' = Inr h
          \<and> 0 \<le> faultProbability h \<and> faultProbability h \<le> 0.8
          \<and> 0 \<le> remainingUsefulLife h)"
  using assess_ranges [OF findEngine_FD004_002] findEngine_FD004_002 by blast

text \<open>
  C7. Engine \<open>CMAPSS-FD004-002\<close> is in the registry with health score 68.9, dataset FD004
  and the fault mode Fan Degradation. Its assessment has degradation rate
  \<open>0.15 + 0.05 + 0.03 = 0.23\<close>, the urgent recommendation, and the critical components
  High Pressure Compressor, Compressor Blades, Fan Blades, Fan Disk, Combustor and
  Turbine Blades.
\<close>

theorem assess_FD004_002:
  "findEngine ''CMAPSS-FD004-002'' =
       Some \<lparr> engineId = ''CMAPSS-FD004-002'', model = ''CFM56-7B (CMAPSS)'',
              serialNumber = ''SN302'', flightHours = 24680, cycles = 378, healthScore = 68.9,
              status = degraded, lastMaintenance = ''2024-01-05'',
              nextMaintenance = ''2024-03-05'', dataset = FD004,
              operationalConditions = ''6 Operating Conditions'',
              faultModes = [''HPC Degradation'', ''Fan Degradation''] \<rparr>
   \<and> generateCMAPSSHealthData ''CMAPSS-FD004-002'' =
       Inr \<lparr> engineId_h = ''CMAPSS-FD004-002'',
             currentCycle = 378,
             remainingUsefulLife = 113,
             healthScore_h = 68.9,
             degradationRate = 0.23,
             faultProbability = 0.249,
             maintenanceRecommendation =
               ''URGENT: Schedule immediate maintenance - engine approaching critical degradation levels'',
             criticalComponents =
               [''High Pressure Compressor'', ''Compressor Blades'', ''Fan Blades'', ''Fan Disk'',
                ''Combustor'', ''Turbine Blades''] \<rparr>"
proof
  show "findEngine ''CMAPSS-FD004-002'' =
       Some \<lparr> engineId = ''CMAPSS-FD004-002'', model = ''CFM56-7B (CMAPSS)'',
              serialNumber = ''SN302'', flightHours = 24680, cycles = 378, healthScore = 68.9,
              status = degraded, lastMaintenance = ''2024-01-05'',
              nextMaintenance = ''2024-03-05'', dataset = FD004,
              operationalConditions = ''6 Operating Conditions'',
              faultModes = [''HPC Degradation'', ''Fan Degradation''] \<rparr>"
    by (simp add: findEngine_def cmapssEngines_def)
  show "generateCMAPSSHealthData ''CMAPSS-FD004-002'' =
       Inr \<lparr> engineId_h = ''CMAPSS-FD004-002'',
             currentCycle = 378,
             remainingUsefulLife = 113,
             healthScore_h = 68.9,
             degradationRate = 0.23,
             faultProbability = 0.249,
             maintenanceRecommendation =
               ''URGENT: Schedule immediate maintenance - engine approaching critical degradation levels'',
             criticalComponents =
               [''High Pressure Compressor'', ''Compressor Blades'', ''Fan Blades'', ''Fan Disk'',
                ''Combustor'', ''Turbine Blades''] \<rparr>"
    unfolding healthData_Some [OF findEngine_FD004_002]
    by (simp add: healthDataOf_def Let_def cmapssEngines_def toFixed_def Math_round_def)
qed

text \<open>
  C8. Engine \<open>CMAPSS-FD001-001\<close> is in the registry with 362 cycles, health score 92.5,
  dataset FD001 and the single fault mode HPC Degradation. Its assessment has remaining
  useful life \<open>round (362 * 1.3 - 362) = 109\<close>, degradation rate 0.15, the recommendation
  to continue normal operations, and exactly the critical components High Pressure
  Compressor and Compressor Blades.
\<close>

theorem assess_FD001_001:
  "findEngine ''CMAPSS-FD001-001'' =
       Some \<lparr> engineId = ''CMAPSS-FD001-001'', model = ''CFM56-7B (CMAPSS)'',
              serialNumber = ''SN001'', flightHours = 15420, cycles = 362, healthScore = 92.5,
              status = operational, lastMaintenance = ''2024-01-15'',
              nextMaintenance = ''2024-07-15'', dataset = FD001,
              operationalConditions = ''Sea Level'', faultModes = [''HPC Degradation''] \<rparr>
   \<and> generateCMAPSSHealthData ''CMAPSS-FD001-001'' =
       Inr \<lparr> engineId_h = ''CMAPSS-FD001-001'',
             currentCycle = 362,
             remainingUsefulLife = 109,
             healthScore_h = 92.5,
             degradationRate = 0.15,
             faultProbability = 0.06,
             maintenanceRecommendation = ''Continue normal operations'',
             criticalComponents = [''High Pressure Compressor'', ''Compressor Blades''] \<rparr>"
proof
  show "findEngine ''CMAPSS-FD001-001'' =
       Some \<lparr> engineId = ''CMAPSS-FD001-001'', model = ''CFM56-7B (CMAPSS)'',
              serialNumber = ''SN001'', flightHours = 15420, cycles = 362, healthScore = 92.5,
              status = operational, lastMaintenance = ''2024-01-15'',
              nextMaintenance = ''2024-07-15'', dataset = FD001,
              operationalConditions = ''Sea Level'', faultModes = [''HPC Degradation''] \<rparr>"
    by (simp add: findEngine_def cmapssEngines_def)
  show "generateCMAPSSHealthData ''CMAPSS-FD001-001'' =
       Inr \<lparr> engineId_h = ''CMAPSS-FD001-001'',
             currentCycle = 362,
             remainingUsefulLife = 109,
             healthScore_h = 92.5,
             degradationRate = 0.15,
             faultProbability = 0.06,
             maintenanceRecommendation = ''Continue normal operations'',
             criticalComponents = [''High Pressure Compressor'', ''Compressor Blades''] \<rparr>"
    unfolding healthData_Some [OF findEngine_FD001_001]
    by (simp add: healthDataOf_def Let_def cmapssEngines_def toFixed_def Math_round_def)
qed

section \<open>Claims about the performance metrics\<close>

text \<open>
  C9. For an engine id of the registry and every random source, the performance metrics
  are returned (no exception, and they are not \<open>null\<close>), with a fuel efficiency of at
  least 0.7 and a thermal efficiency of at least 0.75, whatever the fuel flow and the EGT
  of the last reading are.
\<close>

theorem derive_efficiency_floors:
  assumes "findEngine eid = Some e"
  shows "\<exists>m g'. getCMAPSSPerformanceMetrics eid g = (Inr (Some m), g')
           \<and> 0.7 \<le> fuelEfficiency m \<and> 0.75 \<le> thermalEfficiency m"
proof -
  have k: "(10::int) \<le> 99980277" by simp
  obtain out where out: "fst (generateCMAPSSSensorData eid 10 g) = Inr out"
    and m: "map cycle out = [1..10]"
    using generate_cycles [OF assms k, of g] by auto
  have "[1..10::int] \<noteq> []" by (simp add: upto_rec1)
  then have ne: "out \<noteq> []" using m by auto
  obtain g' where gen: "generateCMAPSSSensorData eid 10 g = (Inr out, g')"
    using out by (cases "generateCMAPSSSensorData eid 10 g") auto
  have f: "real_of_int 700 / 10 ^ 3 \<le> toFixed 3 (max 0.7 x)" for x :: real
    by (rule toFixed_lower) simp
  have t: "real_of_int 750 / 10 ^ 3 \<le> toFixed 3 (max 0.75 x)" for x :: real
    by (rule toFixed_lower) simp
  have f': "0.7 \<le> toFixed 3 (max 0.7 x)" for x :: real using f [of x] by simp
  have t': "0.75 \<le> toFixed 3 (max 0.75 x)" for x :: real using t [of x] by simp
  show ?thesis using assms ne f' t'
    by (simp add: getCMAPSSPerformanceMetrics_def gen Let_def)
qed

theorem derive_efficiency_floors_witness:
  "findEngine ''CMAPSS-FD004-002'' = Some (cmapssEngines ! 8) \<and> rng_ok (const_rng (1 / 2))
   \<and> (\<exists>m g'. getCMAPSSPerformanceMetrics ''CMAPSS-FD004-002'' (const_rng (1 / 2))
                = (Inr (Some m), g')
           \<and> 0.7 \<le> fuelEfficiency m \<and> 0.75 \<le> thermalEfficiency m)"
  using derive_efficiency_floors [OF findEngine_FD004_002, of "const_rng (1 / 2)"]
    findEngine_FD004_002 rng_ok_const by blast

end
